theory Spec2Isabelle
  imports Main
begin

section \<open>Types that protection\_engine.h takes from other headers\<close>

text \<open>
  The header mip/protection/protection\_engine.h includes mip/common\_types.h and five
  further headers for the classes it only refers to. A \<open>std::shared_ptr<T>\<close> is either
  null or holds the address of an object of class \<open>T\<close>; copying and assigning it copies
  the address, and two of them are equal when they hold the same address. The header
  never looks into the object, so the class \<open>T\<close> is recorded in the name of the type
  only.
\<close>

type_synonym addr = nat

datatype shared_ptr = nullptr | shared_to addr

type_synonym AuthDelegate_ptr = shared_ptr
type_synonym TemplateDescriptor_ptr = shared_ptr
type_synonym DelegationLicense_ptr = shared_ptr
type_synonym string_vector_ptr = shared_ptr
type_synonym void_ptr = shared_ptr

text \<open>A \<open>std::exception_ptr\<close> is null or refers to a caught exception object.\<close>

datatype exception_ptr = no_exception | exception_at addr

text \<open>
  Modelled from the spec: \<open>enum class Cloud\<close> is declared in mip/common\_types.h, which is
  not among the sources. The header names two of its enumerators, \<open>Cloud::Unknown\<close>
  (line 452) and \<open>Custom\<close> (line 389); every other enumerator is kept by its underlying
  value.
\<close>

datatype Cloud = Unknown | Custom | Cloud_enumerator nat

text \<open>
  Modelled from the spec: the class \<open>Identity\<close> is declared in mip/common\_types.h as
  well. \<open>Settings\<close> copies it, assigns it and, in its second constructor,
  default-constructs it; so an identity is a value of any type \<open>'identity\<close> of class
  \<open>default\<close>, whose constant \<^term>\<open>default\<close> stands for \<open>Identity()\<close>.
\<close>


section \<open>ProtectionEngine::Settings (lines 234 to 462)\<close>

text \<open>The private data members, lines 450 to 460, in their order of declaration.\<close>

record 'identity Settings =
  mEngineId :: string
  mIdentity :: "'identity"
  mCloud :: Cloud
  mAuthDelegate :: AuthDelegate_ptr
  mClientData :: string
  mCustomSettings :: "(string \<times> string) list"
  mCloudEndpointBaseUrl :: string
  mLocale :: string
  mSessionId :: string
  mUnderlyingApplicationId :: string
  mAllowCloudServiceOnly :: bool

text \<open>
  Both constructors declare \<open>const std::string& locale = "en-US"\<close>. A call that leaves
  the argument out is the call with \<open>None\<close>; the default argument then takes its place.
\<close>

definition locale_argument :: "string option \<Rightarrow> string" where
  "locale_argument locale = (case locale of None \<Rightarrow> ''en-US'' | Some l \<Rightarrow> l)"

text \<open>
  The constructor for creating a new engine, lines 247 to 257. The members its
  initialiser list leaves out are default-initialised: the strings and the vector are
  empty, and \<open>mCloud\<close> takes its default member initialiser \<open>Cloud::Unknown\<close>.
\<close>

definition Settings_new_engine ::
  "'identity \<Rightarrow> AuthDelegate_ptr \<Rightarrow> string \<Rightarrow> string option \<Rightarrow> 'identity Settings"
where
  "Settings_new_engine identity authDelegate clientData locale =
     \<lparr> mEngineId = [],
       mIdentity = identity,
       mCloud = Unknown,
       mAuthDelegate = authDelegate,
       mClientData = clientData,
       mCustomSettings = [],
       mCloudEndpointBaseUrl = [],
       mLocale = locale_argument locale,
       mSessionId = [],
       mUnderlyingApplicationId = [],
       mAllowCloudServiceOnly = False \<rparr>"

text \<open>
  The constructor for loading an existing engine, lines 270 to 280: it initialises
  \<open>mEngineId\<close> and leaves \<open>mIdentity\<close> to its default constructor.
\<close>

definition Settings_existing_engine ::
  "string \<Rightarrow> AuthDelegate_ptr \<Rightarrow> string \<Rightarrow> string option
     \<Rightarrow> ('identity :: default) Settings"
where
  "Settings_existing_engine engineId authDelegate clientData locale =
     \<lparr> mEngineId = engineId,
       mIdentity = default,
       mCloud = Unknown,
       mAuthDelegate = authDelegate,
       mClientData = clientData,
       mCustomSettings = [],
       mCloudEndpointBaseUrl = [],
       mLocale = locale_argument locale,
       mSessionId = [],
       mUnderlyingApplicationId = [],
       mAllowCloudServiceOnly = False \<rparr>"

text \<open>
  The accessors, lines 287 to 446, in the order of the header. A getter reads one
  member of the object; a setter assigns one member and the updated object is returned.
\<close>

definition GetEngineId :: "'identity Settings \<Rightarrow> string" where
  "GetEngineId s = mEngineId s"

definition SetEngineId :: "'identity Settings \<Rightarrow> string \<Rightarrow> 'identity Settings" where
  "SetEngineId s engineId = s\<lparr>mEngineId := engineId\<rparr>"

definition GetIdentity :: "'identity Settings \<Rightarrow> 'identity" where
  "GetIdentity s = mIdentity s"

definition SetIdentity :: "'identity Settings \<Rightarrow> 'identity \<Rightarrow> 'identity Settings" where
  "SetIdentity s identity = s\<lparr>mIdentity := identity\<rparr>"

definition GetClientData :: "'identity Settings \<Rightarrow> string" where
  "GetClientData s = mClientData s"

definition SetClientData :: "'identity Settings \<Rightarrow> string \<Rightarrow> 'identity Settings" where
  "SetClientData s clientData = s\<lparr>mClientData := clientData\<rparr>"

definition GetLocale :: "'identity Settings \<Rightarrow> string" where
  "GetLocale s = mLocale s"

definition SetCustomSettings ::
  "'identity Settings \<Rightarrow> (string \<times> string) list \<Rightarrow> 'identity Settings" where
  "SetCustomSettings s v = s\<lparr>mCustomSettings := v\<rparr>"

definition GetCustomSettings :: "'identity Settings \<Rightarrow> (string \<times> string) list" where
  "GetCustomSettings s = mCustomSettings s"

definition SetSessionId :: "'identity Settings \<Rightarrow> string \<Rightarrow> 'identity Settings" where
  "SetSessionId s sessionId = s\<lparr>mSessionId := sessionId\<rparr>"

definition GetSessionId :: "'identity Settings \<Rightarrow> string" where
  "GetSessionId s = mSessionId s"

definition SetCloud :: "'identity Settings \<Rightarrow> Cloud \<Rightarrow> 'identity Settings" where
  "SetCloud s cloud = s\<lparr>mCloud := cloud\<rparr>"

definition GetCloud :: "'identity Settings \<Rightarrow> Cloud" where
  "GetCloud s = mCloud s"

definition SetCloudEndpointBaseUrl :: "'identity Settings \<Rightarrow> string \<Rightarrow> 'identity Settings" where
  "SetCloudEndpointBaseUrl s cloudEndpointBaseUrl = s\<lparr>mCloudEndpointBaseUrl := cloudEndpointBaseUrl\<rparr>"

definition GetCloudEndpointBaseUrl :: "'identity Settings \<Rightarrow> string" where
  "GetCloudEndpointBaseUrl s = mCloudEndpointBaseUrl s"

definition SetAuthDelegate ::
  "'identity Settings \<Rightarrow> AuthDelegate_ptr \<Rightarrow> 'identity Settings" where
  "SetAuthDelegate s authDelegate = s\<lparr>mAuthDelegate := authDelegate\<rparr>"

definition GetAuthDelegate :: "'identity Settings \<Rightarrow> AuthDelegate_ptr" where
  "GetAuthDelegate s = mAuthDelegate s"

definition GetUnderlyingApplicationId :: "'identity Settings \<Rightarrow> string" where
  "GetUnderlyingApplicationId s = mUnderlyingApplicationId s"

definition SetUnderlyingApplicationId :: "'identity Settings \<Rightarrow> string \<Rightarrow> 'identity Settings" where
  "SetUnderlyingApplicationId s underlyingApplicationId =
     s\<lparr>mUnderlyingApplicationId := underlyingApplicationId\<rparr>"

definition GetAllowCloudServiceOnly :: "'identity Settings \<Rightarrow> bool" where
  "GetAllowCloudServiceOnly s = mAllowCloudServiceOnly s"

definition SetAllowCloudServiceOnly :: "'identity Settings \<Rightarrow> bool \<Rightarrow> 'identity Settings" where
  "SetAllowCloudServiceOnly s allowCloudServiceOnly =
     s\<lparr>mAllowCloudServiceOnly := allowCloudServiceOnly\<rparr>"


section \<open>ProtectionEngine::Observer (lines 61 to 229)\<close>

text \<open>
  A callback is a statement run on the state of the program: it completes, normally or
  by throwing, and leaves a state behind. The objects its reference arguments refer to
  live in that state, whose type is left open.
\<close>

datatype completion = Normal | Throws exception_ptr

type_synonym 's stmt = "'s \<Rightarrow> completion \<times> 's"

text \<open>Two statements in sequence: the second runs when the first completes normally.\<close>

definition seq :: "'s stmt \<Rightarrow> 's stmt \<Rightarrow> 's stmt" where
  "seq c1 c2 = (\<lambda>\<sigma>. case c1 \<sigma> of (Normal, \<sigma>') \<Rightarrow> c2 \<sigma>' | (Throws e, \<sigma>') \<Rightarrow> (Throws e, \<sigma>'))"

text \<open>
  Modelled from the spec: the macro \<open>UNUSED\<close> comes from an included header that is not
  among the sources. It is applied to the name of a parameter that the body does not
  use and stands for \<open>(void)(x)\<close>: the name is evaluated and the value discarded.
\<close>

definition UNUSED :: "'a \<Rightarrow> 's stmt" where
  "UNUSED x = (\<lambda>\<sigma>. (Normal, \<sigma>))"

text \<open>The default bodies of the twelve callbacks, lines 73 to 222.\<close>

definition OnGetTemplatesSuccess ::
  "TemplateDescriptor_ptr list \<Rightarrow> void_ptr \<Rightarrow> 's stmt" where
  "OnGetTemplatesSuccess templateDescriptors context =
     seq (UNUSED templateDescriptors) (UNUSED context)"

definition OnGetTemplatesFailure :: "exception_ptr \<Rightarrow> void_ptr \<Rightarrow> 's stmt" where
  "OnGetTemplatesFailure error context = seq (UNUSED error) (UNUSED context)"

definition OnGetRightsForLabelIdSuccess ::
  "string_vector_ptr \<Rightarrow> void_ptr \<Rightarrow> 's stmt" where
  "OnGetRightsForLabelIdSuccess rights context = seq (UNUSED rights) (UNUSED context)"

definition OnGetRightsForLabelIdFailure :: "exception_ptr \<Rightarrow> void_ptr \<Rightarrow> 's stmt" where
  "OnGetRightsForLabelIdFailure error context = seq (UNUSED error) (UNUSED context)"

definition OnLoadUserCertSuccess :: "void_ptr \<Rightarrow> 's stmt" where
  "OnLoadUserCertSuccess context = UNUSED context"

definition OnLoadUserCertFailure :: "exception_ptr \<Rightarrow> void_ptr \<Rightarrow> 's stmt" where
  "OnLoadUserCertFailure error context = seq (UNUSED error) (UNUSED context)"

definition OnRegisterContentForTrackingAndRevocationSuccess :: "void_ptr \<Rightarrow> 's stmt" where
  "OnRegisterContentForTrackingAndRevocationSuccess context = UNUSED context"

definition OnRegisterContentForTrackingAndRevocationFailure ::
  "exception_ptr \<Rightarrow> void_ptr \<Rightarrow> 's stmt" where
  "OnRegisterContentForTrackingAndRevocationFailure error context =
     seq (UNUSED error) (UNUSED context)"

definition OnRevokeContentSuccess :: "void_ptr \<Rightarrow> 's stmt" where
  "OnRevokeContentSuccess context = UNUSED context"

definition OnRevokeContentFailure :: "exception_ptr \<Rightarrow> void_ptr \<Rightarrow> 's stmt" where
  "OnRevokeContentFailure error context = seq (UNUSED error) (UNUSED context)"

definition OnCreateDelegatedLicensesSuccess ::
  "DelegationLicense_ptr list \<Rightarrow> void_ptr \<Rightarrow> 's stmt" where
  "OnCreateDelegatedLicensesSuccess delegatedLicenses context =
     seq (UNUSED delegatedLicenses) (UNUSED context)"

definition OnCreateDelegatedLicensesFailure :: "exception_ptr \<Rightarrow> void_ptr \<Rightarrow> 's stmt" where
  "OnCreateDelegatedLicensesFailure error context = seq (UNUSED error) (UNUSED context)"


section \<open>The member functions the header declares\<close>

text \<open>
  Every member function of the three classes, with the class that declares it, its
  name, the line of the header where its declaration starts, and what the declaration
  ends in: the pure specifier \<open>= 0\<close>, or a body in braces.
\<close>

datatype specifier = pure_virtual | inline_body

definition declarations :: "(string \<times> string \<times> nat \<times> specifier) list" where
  "declarations =
    [(''Observer'', ''OnGetTemplatesSuccess'', 73, inline_body),
     (''Observer'', ''OnGetTemplatesFailure'', 87, inline_body),
     (''Observer'', ''OnGetRightsForLabelIdSuccess'', 101, inline_body),
     (''Observer'', ''OnGetRightsForLabelIdFailure'', 115, inline_body),
     (''Observer'', ''OnLoadUserCertSuccess'', 128, inline_body),
     (''Observer'', ''OnLoadUserCertFailure'', 141, inline_body),
     (''Observer'', ''OnRegisterContentForTrackingAndRevocationSuccess'', 154, inline_body),
     (''Observer'', ''OnRegisterContentForTrackingAndRevocationFailure'', 167, inline_body),
     (''Observer'', ''OnRevokeContentSuccess'', 180, inline_body),
     (''Observer'', ''OnRevokeContentFailure'', 193, inline_body),
     (''Observer'', ''OnCreateDelegatedLicensesSuccess'', 206, inline_body),
     (''Observer'', ''OnCreateDelegatedLicensesFailure'', 220, inline_body),
     (''Observer'', ''~Observer'', 225, inline_body),
     (''Observer'', ''Observer'', 227, inline_body),
     (''Settings'', ''Settings'', 247, inline_body),
     (''Settings'', ''Settings'', 270, inline_body),
     (''Settings'', ''GetEngineId'', 287, inline_body),
     (''Settings'', ''SetEngineId'', 294, inline_body),
     (''Settings'', ''GetIdentity'', 301, inline_body),
     (''Settings'', ''SetIdentity'', 308, inline_body),
     (''Settings'', ''GetClientData'', 315, inline_body),
     (''Settings'', ''SetClientData'', 322, inline_body),
     (''Settings'', ''GetLocale'', 329, inline_body),
     (''Settings'', ''SetCustomSettings'', 336, inline_body),
     (''Settings'', ''GetCustomSettings'', 343, inline_body),
     (''Settings'', ''SetSessionId'', 350, inline_body),
     (''Settings'', ''GetSessionId'', 359, inline_body),
     (''Settings'', ''SetCloud'', 371, inline_body),
     (''Settings'', ''GetCloud'', 380, inline_body),
     (''Settings'', ''SetCloudEndpointBaseUrl'', 391, inline_body),
     (''Settings'', ''GetCloudEndpointBaseUrl'', 400, inline_body),
     (''Settings'', ''SetAuthDelegate'', 409, inline_body),
     (''Settings'', ''GetAuthDelegate'', 418, inline_body),
     (''Settings'', ''GetUnderlyingApplicationId'', 425, inline_body),
     (''Settings'', ''SetUnderlyingApplicationId'', 432, inline_body),
     (''Settings'', ''GetAllowCloudServiceOnly'', 439, inline_body),
     (''Settings'', ''SetAllowCloudServiceOnly'', 446, inline_body),
     (''ProtectionEngine'', ''GetSettings'', 469, pure_virtual),
     (''ProtectionEngine'', ''GetTemplatesAsync'', 478, pure_virtual),
     (''ProtectionEngine'', ''GetTemplates'', 489, pure_virtual),
     (''ProtectionEngine'', ''IsFeatureSupported'', 498, pure_virtual),
     (''ProtectionEngine'', ''GetRightsForLabelIdAsync'', 512, pure_virtual),
     (''ProtectionEngine'', ''GetRightsForLabelId'', 531, pure_virtual),
     (''ProtectionEngine'', ''CreateProtectionHandlerForPublishingAsync'', 546, pure_virtual),
     (''ProtectionEngine'', ''CreateProtectionHandlerForPublishing'', 559, pure_virtual),
     (''ProtectionEngine'', ''CreateProtectionHandlerForConsumptionAsync'', 571, pure_virtual),
     (''ProtectionEngine'', ''CreateProtectionHandlerForConsumption'', 584, pure_virtual),
     (''ProtectionEngine'', ''LoadUserCert'', 596, pure_virtual),
     (''ProtectionEngine'', ''LoadUserCertAsync'', 607, pure_virtual),
     (''ProtectionEngine'', ''RegisterContentForTrackingAndRevocation'', 618, pure_virtual),
     (''ProtectionEngine'', ''RegisterContentForTrackingAndRevocationAsync'', 635, pure_virtual),
     (''ProtectionEngine'', ''RevokeContent'', 648, pure_virtual),
     (''ProtectionEngine'', ''RevokeContentAsync'', 661, pure_virtual),
     (''ProtectionEngine'', ''CreateDelegationLicenses'', 675, pure_virtual),
     (''ProtectionEngine'', ''CreateDelegationLicensesAsync'', 691, pure_virtual),
     (''ProtectionEngine'', ''~ProtectionEngine'', 697, inline_body),
     (''ProtectionEngine'', ''ProtectionEngine'', 699, inline_body)]"


section \<open>Unfolding the accessors\<close>

lemmas getter_defs =
  GetEngineId_def GetIdentity_def GetClientData_def GetLocale_def GetCustomSettings_def
  GetSessionId_def GetCloud_def GetCloudEndpointBaseUrl_def GetAuthDelegate_def
  GetUnderlyingApplicationId_def GetAllowCloudServiceOnly_def

lemmas setter_defs =
  SetEngineId_def SetIdentity_def SetClientData_def SetCustomSettings_def SetSessionId_def
  SetCloud_def SetCloudEndpointBaseUrl_def SetAuthDelegate_def
  SetUnderlyingApplicationId_def SetAllowCloudServiceOnly_def


section \<open>Setters and getters\<close>

text \<open>
  C1. Right after \<open>s.SetX(v)\<close> the getter \<open>s.GetX()\<close> returns \<open>v\<close>, for each of the ten
  members that have a setter: engine ID, identity, client data, custom settings,
  session ID, cloud, cloud endpoint base URL, auth delegate, underlying application ID
  and the allow-cloud-service-only flag.
\<close>

theorem setter_getter_roundtrip:
  "GetEngineId (SetEngineId s engineId) = engineId
   \<and> GetIdentity (SetIdentity s identity) = identity
   \<and> GetClientData (SetClientData s clientData) = clientData
   \<and> GetCustomSettings (SetCustomSettings s customSettings) = customSettings
   \<and> GetSessionId (SetSessionId s sessionId) = sessionId
   \<and> GetCloud (SetCloud s cloud) = cloud
   \<and> GetCloudEndpointBaseUrl (SetCloudEndpointBaseUrl s url) = url
   \<and> GetAuthDelegate (SetAuthDelegate s authDelegate) = authDelegate
   \<and> GetUnderlyingApplicationId (SetUnderlyingApplicationId s appId) = appId
   \<and> GetAllowCloudServiceOnly (SetAllowCloudServiceOnly s flag) = flag"
  by (simp add: getter_defs setter_defs)

text \<open>
  C4. A setter changes the member it names and nothing else: after \<open>s.SetX(v)\<close> each of
  the ten other getters returns what it returned before the call. The locale, which has
  no setter, is among the members every setter leaves alone.
\<close>

theorem setter_frame:
  "GetIdentity (SetEngineId s v1) = GetIdentity s
   \<and> GetCloud (SetEngineId s v1) = GetCloud s
   \<and> GetAuthDelegate (SetEngineId s v1) = GetAuthDelegate s
   \<and> GetClientData (SetEngineId s v1) = GetClientData s
   \<and> GetCustomSettings (SetEngineId s v1) = GetCustomSettings s
   \<and> GetCloudEndpointBaseUrl (SetEngineId s v1) = GetCloudEndpointBaseUrl s
   \<and> GetLocale (SetEngineId s v1) = GetLocale s
   \<and> GetSessionId (SetEngineId s v1) = GetSessionId s
   \<and> GetUnderlyingApplicationId (SetEngineId s v1) = GetUnderlyingApplicationId s
   \<and> GetAllowCloudServiceOnly (SetEngineId s v1) = GetAllowCloudServiceOnly s
   \<and> GetEngineId (SetIdentity s v2) = GetEngineId s
   \<and> GetCloud (SetIdentity s v2) = GetCloud s
   \<and> GetAuthDelegate (SetIdentity s v2) = GetAuthDelegate s
   \<and> GetClientData (SetIdentity s v2) = GetClientData s
   \<and> GetCustomSettings (SetIdentity s v2) = GetCustomSettings s
   \<and> GetCloudEndpointBaseUrl (SetIdentity s v2) = GetCloudEndpointBaseUrl s
   \<and> GetLocale (SetIdentity s v2) = GetLocale s
   \<and> GetSessionId (SetIdentity s v2) = GetSessionId s
   \<and> GetUnderlyingApplicationId (SetIdentity s v2) = GetUnderlyingApplicationId s
   \<and> GetAllowCloudServiceOnly (SetIdentity s v2) = GetAllowCloudServiceOnly s
   \<and> GetEngineId (SetClientData s v3) = GetEngineId s
   \<and> GetIdentity (SetClientData s v3) = GetIdentity s
   \<and> GetCloud (SetClientData s v3) = GetCloud s
   \<and> GetAuthDelegate (SetClientData s v3) = GetAuthDelegate s
   \<and> GetCustomSettings (SetClientData s v3) = GetCustomSettings s
   \<and> GetCloudEndpointBaseUrl (SetClientData s v3) = GetCloudEndpointBaseUrl s
   \<and> GetLocale (SetClientData s v3) = GetLocale s
   \<and> GetSessionId (SetClientData s v3) = GetSessionId s
   \<and> GetUnderlyingApplicationId (SetClientData s v3) = GetUnderlyingApplicationId s
   \<and> GetAllowCloudServiceOnly (SetClientData s v3) = GetAllowCloudServiceOnly s
   \<and> GetEngineId (SetCustomSettings s v4) = GetEngineId s
   \<and> GetIdentity (SetCustomSettings s v4) = GetIdentity s
   \<and> GetCloud (SetCustomSettings s v4) = GetCloud s
   \<and> GetAuthDelegate (SetCustomSettings s v4) = GetAuthDelegate s
   \<and> GetClientData (SetCustomSettings s v4) = GetClientData s
   \<and> GetCloudEndpointBaseUrl (SetCustomSettings s v4) = GetCloudEndpointBaseUrl s
   \<and> GetLocale (SetCustomSettings s v4) = GetLocale s
   \<and> GetSessionId (SetCustomSettings s v4) = GetSessionId s
   \<and> GetUnderlyingApplicationId (SetCustomSettings s v4) = GetUnderlyingApplicationId s
   \<and> GetAllowCloudServiceOnly (SetCustomSettings s v4) = GetAllowCloudServiceOnly s
   \<and> GetEngineId (SetSessionId s v5) = GetEngineId s
   \<and> GetIdentity (SetSessionId s v5) = GetIdentity s
   \<and> GetCloud (SetSessionId s v5) = GetCloud s
   \<and> GetAuthDelegate (SetSessionId s v5) = GetAuthDelegate s
   \<and> GetClientData (SetSessionId s v5) = GetClientData s
   \<and> GetCustomSettings (SetSessionId s v5) = GetCustomSettings s
   \<and> GetCloudEndpointBaseUrl (SetSessionId s v5) = GetCloudEndpointBaseUrl s
   \<and> GetLocale (SetSessionId s v5) = GetLocale s
   \<and> GetUnderlyingApplicationId (SetSessionId s v5) = GetUnderlyingApplicationId s
   \<and> GetAllowCloudServiceOnly (SetSessionId s v5) = GetAllowCloudServiceOnly s
   \<and> GetEngineId (SetCloud s v6) = GetEngineId s
   \<and> GetIdentity (SetCloud s v6) = GetIdentity s
   \<and> GetAuthDelegate (SetCloud s v6) = GetAuthDelegate s
   \<and> GetClientData (SetCloud s v6) = GetClientData s
   \<and> GetCustomSettings (SetCloud s v6) = GetCustomSettings s
   \<and> GetCloudEndpointBaseUrl (SetCloud s v6) = GetCloudEndpointBaseUrl s
   \<and> GetLocale (SetCloud s v6) = GetLocale s
   \<and> GetSessionId (SetCloud s v6) = GetSessionId s
   \<and> GetUnderlyingApplicationId (SetCloud s v6) = GetUnderlyingApplicationId s
   \<and> GetAllowCloudServiceOnly (SetCloud s v6) = GetAllowCloudServiceOnly s
   \<and> GetEngineId (SetCloudEndpointBaseUrl s v7) = GetEngineId s
   \<and> GetIdentity (SetCloudEndpointBaseUrl s v7) = GetIdentity s
   \<and> GetCloud (SetCloudEndpointBaseUrl s v7) = GetCloud s
   \<and> GetAuthDelegate (SetCloudEndpointBaseUrl s v7) = GetAuthDelegate s
   \<and> GetClientData (SetCloudEndpointBaseUrl s v7) = GetClientData s
   \<and> GetCustomSettings (SetCloudEndpointBaseUrl s v7) = GetCustomSettings s
   \<and> GetLocale (SetCloudEndpointBaseUrl s v7) = GetLocale s
   \<and> GetSessionId (SetCloudEndpointBaseUrl s v7) = GetSessionId s
   \<and> GetUnderlyingApplicationId (SetCloudEndpointBaseUrl s v7) = GetUnderlyingApplicationId s
   \<and> GetAllowCloudServiceOnly (SetCloudEndpointBaseUrl s v7) = GetAllowCloudServiceOnly s
   \<and> GetEngineId (SetAuthDelegate s v8) = GetEngineId s
   \<and> GetIdentity (SetAuthDelegate s v8) = GetIdentity s
   \<and> GetCloud (SetAuthDelegate s v8) = GetCloud s
   \<and> GetClientData (SetAuthDelegate s v8) = GetClientData s
   \<and> GetCustomSettings (SetAuthDelegate s v8) = GetCustomSettings s
   \<and> GetCloudEndpointBaseUrl (SetAuthDelegate s v8) = GetCloudEndpointBaseUrl s
   \<and> GetLocale (SetAuthDelegate s v8) = GetLocale s
   \<and> GetSessionId (SetAuthDelegate s v8) = GetSessionId s
   \<and> GetUnderlyingApplicationId (SetAuthDelegate s v8) = GetUnderlyingApplicationId s
   \<and> GetAllowCloudServiceOnly (SetAuthDelegate s v8) = GetAllowCloudServiceOnly s
   \<and> GetEngineId (SetUnderlyingApplicationId s v9) = GetEngineId s
   \<and> GetIdentity (SetUnderlyingApplicationId s v9) = GetIdentity s
   \<and> GetCloud (SetUnderlyingApplicationId s v9) = GetCloud s
   \<and> GetAuthDelegate (SetUnderlyingApplicationId s v9) = GetAuthDelegate s
   \<and> GetClientData (SetUnderlyingApplicationId s v9) = GetClientData s
   \<and> GetCustomSettings (SetUnderlyingApplicationId s v9) = GetCustomSettings s
   \<and> GetCloudEndpointBaseUrl (SetUnderlyingApplicationId s v9) = GetCloudEndpointBaseUrl s
   \<and> GetLocale (SetUnderlyingApplicationId s v9) = GetLocale s
   \<and> GetSessionId (SetUnderlyingApplicationId s v9) = GetSessionId s
   \<and> GetAllowCloudServiceOnly (SetUnderlyingApplicationId s v9) = GetAllowCloudServiceOnly s
   \<and> GetEngineId (SetAllowCloudServiceOnly s v10) = GetEngineId s
   \<and> GetIdentity (SetAllowCloudServiceOnly s v10) = GetIdentity s
   \<and> GetCloud (SetAllowCloudServiceOnly s v10) = GetCloud s
   \<and> GetAuthDelegate (SetAllowCloudServiceOnly s v10) = GetAuthDelegate s
   \<and> GetClientData (SetAllowCloudServiceOnly s v10) = GetClientData s
   \<and> GetCustomSettings (SetAllowCloudServiceOnly s v10) = GetCustomSettings s
   \<and> GetCloudEndpointBaseUrl (SetAllowCloudServiceOnly s v10) = GetCloudEndpointBaseUrl s
   \<and> GetLocale (SetAllowCloudServiceOnly s v10) = GetLocale s
   \<and> GetSessionId (SetAllowCloudServiceOnly s v10) = GetSessionId s
   \<and> GetUnderlyingApplicationId (SetAllowCloudServiceOnly s v10) = GetUnderlyingApplicationId s"
  by (simp add: getter_defs setter_defs)


section \<open>Constructors\<close>

text \<open>
  C2. \<open>Settings(identity, authDelegate, clientData, locale)\<close> yields an object whose
  getters return the identity, the auth delegate, the client data and the locale it was
  given; \<open>Settings(engineId, authDelegate, clientData, locale)\<close> yields one whose getters
  return the engine ID, the auth delegate, the client data and the locale it was given.
\<close>

theorem constructors_keep_arguments:
  "GetIdentity (Settings_new_engine i a c (Some l)) = i
   \<and> GetAuthDelegate (Settings_new_engine i a c (Some l)) = a
   \<and> GetClientData (Settings_new_engine i a c (Some l)) = c
   \<and> GetLocale (Settings_new_engine i a c (Some l)) = l
   \<and> GetEngineId (Settings_existing_engine e a c (Some l) :: 'identity :: default Settings) = e
   \<and> GetAuthDelegate (Settings_existing_engine e a c (Some l) :: 'identity Settings) = a
   \<and> GetClientData (Settings_existing_engine e a c (Some l) :: 'identity Settings) = c
   \<and> GetLocale (Settings_existing_engine e a c (Some l) :: 'identity Settings) = l"
  by (simp add: getter_defs Settings_new_engine_def Settings_existing_engine_def
      locale_argument_def)

text \<open>
  C8. A Settings object fresh from either constructor, whatever the arguments, has the
  allow-cloud-service-only flag false and the cloud \<open>Cloud::Unknown\<close>; when the call
  leaves the locale out, the locale is \<open>en-US\<close>.
\<close>

theorem fresh_settings_defaults:
  "GetAllowCloudServiceOnly (Settings_new_engine i a c l) = False
   \<and> GetCloud (Settings_new_engine i a c l) = Unknown
   \<and> GetAllowCloudServiceOnly (Settings_existing_engine e a c l :: 'identity :: default Settings) = False
   \<and> GetCloud (Settings_existing_engine e a c l :: 'identity Settings) = Unknown
   \<and> GetLocale (Settings_new_engine i a c None) = ''en-US''
   \<and> GetLocale (Settings_existing_engine e a c None :: 'identity Settings) = ''en-US''"
  by (simp add: getter_defs Settings_new_engine_def Settings_existing_engine_def
      locale_argument_def)

text \<open>
  C9. Each constructor leaves the member that only the other one initialises at its
  default: after the constructor for a new engine the engine ID is the empty string,
  and after the constructor for an existing engine the identity is a
  default-constructed \<open>Identity\<close>.
\<close>

theorem constructor_leaves_other_member_default:
  "GetEngineId (Settings_new_engine i a c l) = ''''
   \<and> GetIdentity (Settings_existing_engine e a c l) = default"
  by (simp add: getter_defs Settings_new_engine_def Settings_existing_engine_def)


section \<open>Default observer callbacks\<close>

text \<open>
  C10. The default body of each of the twelve Observer callbacks does nothing: for all
  arguments and from every state it completes normally and leaves the state, and with
  it every object its arguments refer to, as it was.
\<close>

theorem observer_defaults_do_nothing:
  "OnGetTemplatesSuccess templateDescriptors context \<sigma> = (Normal, \<sigma>)
   \<and> OnGetTemplatesFailure error context \<sigma> = (Normal, \<sigma>)
   \<and> OnGetRightsForLabelIdSuccess rights context \<sigma> = (Normal, \<sigma>)
   \<and> OnGetRightsForLabelIdFailure error context \<sigma> = (Normal, \<sigma>)
   \<and> OnLoadUserCertSuccess context \<sigma> = (Normal, \<sigma>)
   \<and> OnLoadUserCertFailure error context \<sigma> = (Normal, \<sigma>)
   \<and> OnRegisterContentForTrackingAndRevocationSuccess context \<sigma> = (Normal, \<sigma>)
   \<and> OnRegisterContentForTrackingAndRevocationFailure error context \<sigma> = (Normal, \<sigma>)
   \<and> OnRevokeContentSuccess context \<sigma> = (Normal, \<sigma>)
   \<and> OnRevokeContentFailure error context \<sigma> = (Normal, \<sigma>)
   \<and> OnCreateDelegatedLicensesSuccess delegatedLicenses context \<sigma> = (Normal, \<sigma>)
   \<and> OnCreateDelegatedLicensesFailure error context \<sigma> = (Normal, \<sigma>)"
  by (simp add: seq_def UNUSED_def
      OnGetTemplatesSuccess_def OnGetTemplatesFailure_def
      OnGetRightsForLabelIdSuccess_def OnGetRightsForLabelIdFailure_def
      OnLoadUserCertSuccess_def OnLoadUserCertFailure_def
      OnRegisterContentForTrackingAndRevocationSuccess_def
      OnRegisterContentForTrackingAndRevocationFailure_def
      OnRevokeContentSuccess_def OnRevokeContentFailure_def
      OnCreateDelegatedLicensesSuccess_def OnCreateDelegatedLicensesFailure_def)


section \<open>Which members are pure virtual\<close>

text \<open>
  C6, as the specification states it, says that every method the header declares is
  pure virtual and that none defines behaviour. It fails: \<open>Settings::SetEngineId\<close>
  (line 294) is declared with a body, and the body changes what \<open>GetEngineId\<close> returns.
\<close>

theorem SetEngineId_has_a_body:
  "(''Settings'', ''SetEngineId'', 294, inline_body) \<in> set declarations
   \<and> inline_body \<noteq> pure_virtual
   \<and> GetEngineId (Settings_new_engine ''alice@contoso.com'' (shared_to 1) ''data'' None) = ''''
   \<and> GetEngineId (SetEngineId
         (Settings_new_engine ''alice@contoso.com'' (shared_to 1) ''data'' None) ''engine-1'')
       = ''engine-1''"
  by (simp add: declarations_def getter_defs setter_defs Settings_new_engine_def)

text \<open>
  C6, amended. The members declared pure virtual are exactly the eighteen operations
  of \<open>ProtectionEngine\<close> itself, listed here in the order of the header. Every other
  member function the header declares has a body: the twelve callbacks, the destructor
  and the constructor of \<open>Observer\<close>, the two constructors, the eleven getters and the ten
  setters of \<open>Settings\<close>, and the destructor and the constructor of \<open>ProtectionEngine\<close>.
\<close>

theorem pure_virtual_members_are_the_engine_operations:
  "map (\<lambda>(c, n, l, b). (c, n)) (filter (\<lambda>(c, n, l, b). b = pure_virtual) declarations) =
    [(''ProtectionEngine'', ''GetSettings''),
     (''ProtectionEngine'', ''GetTemplatesAsync''),
     (''ProtectionEngine'', ''GetTemplates''),
     (''ProtectionEngine'', ''IsFeatureSupported''),
     (''ProtectionEngine'', ''GetRightsForLabelIdAsync''),
     (''ProtectionEngine'', ''GetRightsForLabelId''),
     (''ProtectionEngine'', ''CreateProtectionHandlerForPublishingAsync''),
     (''ProtectionEngine'', ''CreateProtectionHandlerForPublishing''),
     (''ProtectionEngine'', ''CreateProtectionHandlerForConsumptionAsync''),
     (''ProtectionEngine'', ''CreateProtectionHandlerForConsumption''),
     (''ProtectionEngine'', ''LoadUserCert''),
     (''ProtectionEngine'', ''LoadUserCertAsync''),
     (''ProtectionEngine'', ''RegisterContentForTrackingAndRevocation''),
     (''ProtectionEngine'', ''RegisterContentForTrackingAndRevocationAsync''),
     (''ProtectionEngine'', ''RevokeContent''),
     (''ProtectionEngine'', ''RevokeContentAsync''),
     (''ProtectionEngine'', ''CreateDelegationLicenses''),
     (''ProtectionEngine'', ''CreateDelegationLicensesAsync'')]
   \<and> map (\<lambda>(c, n, l, b). (c, n)) (filter (\<lambda>(c, n, l, b). b = inline_body) declarations) =
    [(''Observer'', ''OnGetTemplatesSuccess''),
     (''Observer'', ''OnGetTemplatesFailure''),
     (''Observer'', ''OnGetRightsForLabelIdSuccess''),
     (''Observer'', ''OnGetRightsForLabelIdFailure''),
     (''Observer'', ''OnLoadUserCertSuccess''),
     (''Observer'', ''OnLoadUserCertFailure''),
     (''Observer'', ''OnRegisterContentForTrackingAndRevocationSuccess''),
     (''Observer'', ''OnRegisterContentForTrackingAndRevocationFailure''),
     (''Observer'', ''OnRevokeContentSuccess''),
     (''Observer'', ''OnRevokeContentFailure''),
     (''Observer'', ''OnCreateDelegatedLicensesSuccess''),
     (''Observer'', ''OnCreateDelegatedLicensesFailure''),
     (''Observer'', ''~Observer''),
     (''Observer'', ''Observer''),
     (''Settings'', ''Settings''),
     (''Settings'', ''Settings''),
     (''Settings'', ''GetEngineId''),
     (''Settings'', ''SetEngineId''),
     (''Settings'', ''GetIdentity''),
     (''Settings'', ''SetIdentity''),
     (''Settings'', ''GetClientData''),
     (''Settings'', ''SetClientData''),
     (''Settings'', ''GetLocale''),
     (''Settings'', ''SetCustomSettings''),
     (''Settings'', ''GetCustomSettings''),
     (''Settings'', ''SetSessionId''),
     (''Settings'', ''GetSessionId''),
     (''Settings'', ''SetCloud''),
     (''Settings'', ''GetCloud''),
     (''Settings'', ''SetCloudEndpointBaseUrl''),
     (''Settings'', ''GetCloudEndpointBaseUrl''),
     (''Settings'', ''SetAuthDelegate''),
     (''Settings'', ''GetAuthDelegate''),
     (''Settings'', ''GetUnderlyingApplicationId''),
     (''Settings'', ''SetUnderlyingApplicationId''),
     (''Settings'', ''GetAllowCloudServiceOnly''),
     (''Settings'', ''SetAllowCloudServiceOnly''),
     (''ProtectionEngine'', ''~ProtectionEngine''),
     (''ProtectionEngine'', ''ProtectionEngine'')]"
  by (simp add: declarations_def)


section \<open>Properties of the Settings class that can be tested\<close>



end
